theory Spec2Isabelle
  imports Complex_Main "HOL-Library.Sublist"
begin

section \<open>PortLib: client-side policies of the campus library app\<close>

text \<open>
  A shallow embedding of the pieces of the PortLib client that carry behaviour of their
  own: the auth store (\<^verbatim>\<open>src/store/authStore.ts\<close>), the HTTP client and its
  error normaliser (\<^verbatim>\<open>lib/apiClient\<close>), the dashboard hook
  (\<^verbatim>\<open>hooks/useDashboardData\<close>), the borrow query functions, the date helpers of
  the two dashboards and the availability badges of the book pages.

  JavaScript values that may be absent are \<open>option\<close>s; a thrown value is the left
  summand of a sum type; a React state cell is a record that each \<^verbatim>\<open>setState\<close>
  updater maps to the next record, applied in program order.
\<close>

subsection \<open>Auth store\<close>

text \<open>
  \<^verbatim>\<open>type AuthUser = { id?: string; name?: string; email?: string }\<close> and the data
  fields of \<^verbatim>\<open>AuthState\<close>. The three actions are functions on that record:
  zustand's \<^verbatim>\<open>set(partial)\<close> merges the given fields into the state.
\<close>

record AuthUser =
  user_id :: "string option"
  user_name :: "string option"
  user_email :: "string option"

record AuthState =
  user :: "AuthUser option"
  token :: "string option"
  isAuthenticated :: bool
  hydrated :: bool

text \<open>
  A property of the \<^verbatim>\<open>setAuth\<close> payload is absent (\<^verbatim>\<open>undefined\<close>),
  \<^verbatim>\<open>null\<close>, or a value. The destructuring default \<^verbatim>\<open>{ user = null, token = null }\<close>
  replaces only \<^verbatim>\<open>undefined\<close>.
\<close>

datatype 'a field = Undefined | Null | Value 'a

fun defaultNull :: "'a field \<Rightarrow> 'a option" where
  "defaultNull Undefined = None"
| "defaultNull Null = None"
| "defaultNull (Value v) = Some v"

record AuthPayload =
  p_user :: "AuthUser field"
  p_token :: "string field"

text \<open>\<^verbatim>\<open>Boolean(token)\<close> for \<^verbatim>\<open>string | null\<close>: only a non-empty string is truthy.\<close>

fun BooleanOfToken :: "string option \<Rightarrow> bool" where
  "BooleanOfToken None = False"
| "BooleanOfToken (Some s) = (s \<noteq> [])"

definition initialAuthState :: AuthState where
  "initialAuthState =
     \<lparr> user = None, token = None, isAuthenticated = False, hydrated = False \<rparr>"

definition setHydrated :: "bool \<Rightarrow> AuthState \<Rightarrow> AuthState" where
  "setHydrated v s = s\<lparr> hydrated := v \<rparr>"

definition setAuth :: "AuthPayload \<Rightarrow> AuthState \<Rightarrow> AuthState" where
  "setAuth p s =
     (let u = defaultNull (p_user p); t = defaultNull (p_token p)
      in s\<lparr> user := u, token := t, isAuthenticated := BooleanOfToken t \<rparr>)"

definition logout :: "AuthState \<Rightarrow> AuthState" where
  "logout s = s\<lparr> user := None, token := None, isAuthenticated := False \<rparr>"

text \<open>Any sequence of calls of the three actions, starting from a given state.\<close>

datatype AuthAction = SetHydrated bool | SetAuth AuthPayload | Logout

fun authStep :: "AuthState \<Rightarrow> AuthAction \<Rightarrow> AuthState" where
  "authStep s (SetHydrated v) = setHydrated v s"
| "authStep s (SetAuth p) = setAuth p s"
| "authStep s Logout = logout s"

definition authRun :: "AuthAction list \<Rightarrow> AuthState" where
  "authRun acts = foldl authStep initialAuthState acts"

text \<open>
  The invariant of the store, in the words of the spec: the flag is true exactly when
  the stored token is a non-empty string.
\<close>

definition authInv :: "AuthState \<Rightarrow> bool" where
  "authInv s = (isAuthenticated s \<longleftrightarrow> (\<exists>t. token s = Some t \<and> t \<noteq> []))"

text \<open>Example payloads: a login, and a payload whose token is the empty string.\<close>

definition loginPayload :: AuthPayload where
  "loginPayload =
     \<lparr> p_user = Value \<lparr> user_id = Some ''u1'', user_name = Some ''Ada'', user_email = None \<rparr>,
       p_token = Value ''abc'' \<rparr>"

definition emptyTokenPayload :: AuthPayload where
  "emptyTokenPayload = \<lparr> p_user = Null, p_token = Value [] \<rparr>"

subsection \<open>HTTP client\<close>

text \<open>
  What a \<^verbatim>\<open>catch\<close> clause can receive: an \<^verbatim>\<open>ApiClientError\<close> with its message,
  status code and field-error map, any other \<^verbatim>\<open>Error\<close> instance with its name and
  message (the \<^verbatim>\<open>TypeError\<close> of a failed \<^verbatim>\<open>fetch\<close>, a \<^verbatim>\<open>SyntaxError\<close>, ...), or
  a thrown value that is no \<^verbatim>\<open>Error\<close> at all.
\<close>

type_synonym FieldErrors = "(string \<times> string list) list"

datatype thrown =
    ApiClientError string "nat option" "FieldErrors option"
  | JsError string string
  | NonError

text \<open>\<^verbatim>\<open>interface ApiError { message: string; errors?: ...; statusCode?: number }\<close>\<close>

record ApiError =
  message :: string
  errors :: "FieldErrors option"
  statusCode :: "nat option"

text \<open>\<^verbatim>\<open>a || b\<close> on strings: the empty string is falsy.\<close>

definition orString :: "string \<Rightarrow> string \<Rightarrow> string" where
  "orString a b = (if a \<noteq> [] then a else b)"

fun handleApiError :: "thrown \<Rightarrow> ApiError" where
  "handleApiError (ApiClientError m sc es) =
     \<lparr> message = m, errors = es, statusCode = sc \<rparr>"
| "handleApiError (JsError n m) =
     \<lparr> message = orString m ''An unexpected error occurred'', errors = None, statusCode = None \<rparr>"
| "handleApiError NonError =
     \<lparr> message = ''An unexpected error occurred'', errors = None, statusCode = None \<rparr>"

text \<open>
  What \<^verbatim>\<open>response.json()\<close> yields on the error path, read through the two properties
  the client looks at. The body is not JSON (\<open>None\<close> below, the promise rejects), it is
  the JSON literal \<^verbatim>\<open>null\<close>, or it is a value with an optional \<^verbatim>\<open>message\<close> and an
  optional \<^verbatim>\<open>errors\<close> property. A \<^verbatim>\<open>message\<close> is a string, as
  \<^verbatim>\<open>interface ApiError\<close> declares it; a JSON string, number, boolean or array has
  neither property and is \<open>JsonValue None None\<close>.
\<close>

datatype ErrorData = JsonNull | JsonValue "string option" "FieldErrors option"

text \<open>
  A response as the client reads it: \<^verbatim>\<open>status\<close>, \<^verbatim>\<open>ok\<close> (the status is in
  200..299), and \<^verbatim>\<open>json()\<close>, which is read once, on one of the two paths:
  \<open>errorJson\<close> is its outcome when the body is read as an error body, \<open>dataJson\<close>
  its outcome when the body is returned as the payload \<^verbatim>\<open>T\<close>.
\<close>

record 'a Response =
  status :: nat
  errorJson :: "ErrorData option"
  dataJson :: "thrown + 'a"

definition ok :: "'a Response \<Rightarrow> bool" where
  "ok r = (200 \<le> status r \<and> status r \<le> 299)"

record Request =
  httpMethod :: string
  url :: string
  headers :: "(string \<times> string) list"

text \<open>
  The surroundings of the client: the base URL resolved at start-up, the token held by
  the storage (\<^verbatim>\<open>localStorage.getItem("auth_token")\<close>), and the transport:
  \<^verbatim>\<open>fetch\<close> rejects (\<open>Inl\<close>) when no response is received, and resolves with the
  response otherwise, whatever its status.
\<close>

record 'a Env =
  API_BASE_URL :: string
  storedToken :: "string option"
  fetch :: "Request \<Rightarrow> thrown + 'a Response"

text \<open>
  \<^verbatim>\<open>localStorage.getItem("auth_token") || null\<close>. On a device the token comes from
  the secure store instead; there too an empty token adds no header.
\<close>

definition getAuthToken :: "'a Env \<Rightarrow> string option" where
  "getAuthToken env =
     (case storedToken env of None \<Rightarrow> None | Some t \<Rightarrow> if t \<noteq> [] then Some t else None)"

definition getAuthHeaders :: "'a Env \<Rightarrow> (string \<times> string) list" where
  "getAuthHeaders env =
     (case getAuthToken env of
        None \<Rightarrow> [(''Content-Type'', ''application/json'')]
      | Some t \<Rightarrow> [(''Content-Type'', ''application/json''), (''Authorization'', ''Bearer '' @ t)])"

definition getRequest :: "'a Env \<Rightarrow> string \<Rightarrow> Request" where
  "getRequest env endpoint =
     \<lparr> httpMethod = ''GET'', url = API_BASE_URL env @ endpoint, headers = getAuthHeaders env \<rparr>"

text \<open>
  Reading a property of \<^verbatim>\<open>null\<close> throws a \<^verbatim>\<open>TypeError\<close>; the text of its message is
  the engine's.
\<close>

definition nullPropertyError :: "string \<Rightarrow> thrown" where
  "nullPropertyError p =
     JsError ''TypeError'' (''Cannot read properties of null (reading '' @ [CHR 0x27] @ p @ [CHR 0x27] @ '')'')"

text \<open>
  \<^verbatim>\<open>apiClient.get\<close>, called without \<^verbatim>\<open>options\<close> as every caller does. The result
  is the list of requests handed to \<^verbatim>\<open>fetch\<close> and the outcome of the promise.
\<close>

definition apiClient_get :: "'a Env \<Rightarrow> string \<Rightarrow> Request list \<times> (thrown + 'a)" where
  "apiClient_get env endpoint =
     (let request = getRequest env endpoint in
      (case fetch env request of
         Inl e \<Rightarrow> ([request], Inl e)
       | Inr response \<Rightarrow>
           if \<not> ok response then
             (case (case errorJson response of
                      None \<Rightarrow> JsonValue (Some ''Request failed'') None
                    | Some d \<Rightarrow> d) of
                JsonNull \<Rightarrow> ([request], Inl (nullPropertyError ''message''))
              | JsonValue m es \<Rightarrow>
                  ([request],
                   Inl (ApiClientError
                          (orString (case m of None \<Rightarrow> [] | Some t \<Rightarrow> t)
                             (''GET '' @ endpoint @ '' failed''))
                          (Some (status response)) es)))
           else ([request], dataJson response)))"

text \<open>Two surroundings used as examples: no connectivity, and a server answering 500 with the body \<^verbatim>\<open>null\<close>.\<close>

definition offlineFetch :: "Request \<Rightarrow> thrown + unit Response" where
  "offlineFetch request = Inl (JsError ''TypeError'' ''Failed to fetch'')"

definition offlineEnv :: "unit Env" where
  "offlineEnv =
     \<lparr> API_BASE_URL = ''http://192.168.1.6:3000'', storedToken = None, fetch = offlineFetch \<rparr>"

definition nullBodyFetch :: "Request \<Rightarrow> thrown + unit Response" where
  "nullBodyFetch request =
     Inr \<lparr> status = 500, errorJson = Some JsonNull, dataJson = Inr () \<rparr>"

definition nullBodyEnv :: "unit Env" where
  "nullBodyEnv =
     \<lparr> API_BASE_URL = ''http://192.168.1.6:3000'', storedToken = None, fetch = nullBodyFetch \<rparr>"

fun isApiClientError :: "thrown \<Rightarrow> bool" where
  "isApiClientError (ApiClientError m sc es) = True"
| "isApiClientError e = False"

subsection \<open>JavaScript values\<close>

text \<open>
  The dashboard hook reads the payloads defensively, through \<^verbatim>\<open>as any\<close>,
  \<^verbatim>\<open>Array.isArray\<close> and \<^verbatim>\<open>Number.isFinite\<close>, so a payload is a JavaScript value and
  not a typed record. A number is finite, \<^verbatim>\<open>NaN\<close> or an infinity; finite numbers are
  rationals and their sum is exact (the rounding of double addition is not modelled).
\<close>

datatype jsnum = Finite rat | NaN | PosInfinity | NegInfinity

datatype jsval =
    JUndefined
  | JNull
  | JBool bool
  | JNumber jsnum
  | JString string
  | JArray "jsval list"
  | JObject "(string \<times> jsval) list"

fun isNullish :: "jsval \<Rightarrow> bool" where
  "isNullish JUndefined = True"
| "isNullish JNull = True"
| "isNullish v = False"

text \<open>
  \<^verbatim>\<open>v.k\<close> for the property names read here: a \<^verbatim>\<open>TypeError\<close> on \<^verbatim>\<open>null\<close> and
  \<^verbatim>\<open>undefined\<close>, the member of an object, \<^verbatim>\<open>undefined\<close> on anything else.
\<close>

fun getProp :: "jsval \<Rightarrow> string \<Rightarrow> thrown + jsval" where
  "getProp JUndefined k =
     Inl (JsError ''TypeError'' (''Cannot read properties of undefined (reading '' @ [CHR 0x27] @ k @ [CHR 0x27] @ '')''))"
| "getProp JNull k = Inl (nullPropertyError k)"
| "getProp (JObject kvs) k = Inr (case map_of kvs k of None \<Rightarrow> JUndefined | Some v \<Rightarrow> v)"
| "getProp v k = Inr JUndefined"

text \<open>\<^verbatim>\<open>v?.k\<close>\<close>

fun optProp :: "jsval \<Rightarrow> string \<Rightarrow> jsval" where
  "optProp (JObject kvs) k = (case map_of kvs k of None \<Rightarrow> JUndefined | Some v \<Rightarrow> v)"
| "optProp v k = JUndefined"

fun truthy :: "jsval \<Rightarrow> bool" where
  "truthy JUndefined = False"
| "truthy JNull = False"
| "truthy (JBool b) = b"
| "truthy (JNumber (Finite r)) = (r \<noteq> 0)"
| "truthy (JNumber NaN) = False"
| "truthy (JNumber n) = True"
| "truthy (JString s) = (s \<noteq> [])"
| "truthy v = True"

text \<open>\<^verbatim>\<open>a || b\<close> and \<^verbatim>\<open>a ?? b\<close>\<close>

definition orElse :: "jsval \<Rightarrow> jsval \<Rightarrow> jsval" where
  "orElse a b = (if truthy a then a else b)"

definition coalesce :: "jsval \<Rightarrow> jsval \<Rightarrow> jsval" where
  "coalesce a b = (if isNullish a then b else a)"

text \<open>\<^verbatim>\<open>Number.isFinite(v)\<close>: a number that is neither \<^verbatim>\<open>NaN\<close> nor infinite.\<close>

fun Number_isFinite :: "jsval \<Rightarrow> bool" where
  "Number_isFinite (JNumber (Finite r)) = True"
| "Number_isFinite v = False"

text \<open>\<^verbatim>\<open>Array.isArray(raw) ? raw : []\<close>\<close>

fun arrayOrEmpty :: "jsval \<Rightarrow> jsval list" where
  "arrayOrEmpty (JArray xs) = xs"
| "arrayOrEmpty v = []"

subsection \<open>Dashboard hook\<close>

record StudentDashboardData =
  studentName :: jsval
  studentId :: jsval
  major :: jsval
  totalBorrows :: nat
  activeBorrows :: nat
  totalFines :: rat
  overdueBooks :: "jsval list"
  currentBorrows :: "jsval list"

record DashboardState =
  data :: "StudentDashboardData option"
  isLoading :: bool
  isRefreshing :: bool
  isPaying :: bool
  error :: "string option"
  payError :: "string option"

definition initialDashboardState :: DashboardState where
  "initialDashboardState =
     \<lparr> data = None, isLoading = True, isRefreshing = False, isPaying = False,
       error = None, payError = None \<rparr>"

text \<open>
  \<^verbatim>\<open>(borrow as any)?.fine ?? borrow.book?.fineAmount ?? 0\<close>. The right operand of
  \<^verbatim>\<open>??\<close> is evaluated only when the left one is nullish; \<^verbatim>\<open>borrow.book\<close> throws
  on a nullish \<^verbatim>\<open>borrow\<close>.
\<close>

definition fineOf :: "jsval \<Rightarrow> thrown + jsval" where
  "fineOf borrow =
     (let fine = optProp borrow ''fine'' in
      if \<not> isNullish fine then Inr fine
      else (case getProp borrow ''book'' of
              Inl e \<Rightarrow> Inl e
            | Inr book \<Rightarrow> Inr (coalesce (optProp book ''fineAmount'') (JNumber (Finite 0)))))"

text \<open>\<^verbatim>\<open>sum + (Number.isFinite(fine) ? (fine as number) : 0)\<close>, the accumulator \<^verbatim>\<open>sum\<close> being \<open>acc\<close>;
  \<open>asNumber\<close> is the cast, used on finite numbers only\<close>

fun asNumber :: "jsval \<Rightarrow> rat" where
  "asNumber (JNumber (Finite r)) = r"
| "asNumber v = 0"

definition addFine :: "rat \<Rightarrow> jsval \<Rightarrow> rat" where
  "addFine acc fine = acc + (if Number_isFinite fine then asNumber fine else 0)"

text \<open>
  \<^verbatim>\<open>overdueBorrows.reduce((sum, borrow) => ..., 0)\<close>, from a given accumulator; a
  throwing callback ends the reduction.
\<close>

fun reduceFines :: "rat \<Rightarrow> jsval list \<Rightarrow> thrown + rat" where
  "reduceFines acc [] = Inr acc"
| "reduceFines acc (borrow # rest) =
     (case fineOf borrow of
        Inl e \<Rightarrow> Inl e
      | Inr fine \<Rightarrow> reduceFines (addFine acc fine) rest)"

definition computeTotalFines :: "jsval list \<Rightarrow> thrown + rat" where
  "computeTotalFines overdueBorrows = reduceFines 0 overdueBorrows"

text \<open>
  The outcomes of the three requests of one \<^verbatim>\<open>fetchData\<close> run.
  \<^verbatim>\<open>Promise.all\<close> rejects with the rejection that happens first;
  \<open>overdueRejectsFirst\<close> says which one that is when both borrow requests fail.
\<close>

record FetchOutcomes =
  profileOutcome :: "thrown + jsval"
  currentOutcome :: "thrown + jsval"
  overdueOutcome :: "thrown + jsval"
  overdueRejectsFirst :: bool

text \<open>
  The \<^verbatim>\<open>Promise.all\<close> of \<^verbatim>\<open>fetchData\<close>; a failed profile request yields
  \<^verbatim>\<open>null\<close> (\<^verbatim>\<open>.catch(() => null)\<close>).
\<close>

definition awaitAll :: "FetchOutcomes \<Rightarrow> thrown + (jsval \<times> jsval \<times> jsval)" where
  "awaitAll oc =
     (let profile = (case profileOutcome oc of Inl e \<Rightarrow> JNull | Inr v \<Rightarrow> v) in
      case (currentOutcome oc, overdueOutcome oc) of
        (Inr c, Inr ov) \<Rightarrow> Inr (profile, c, ov)
      | (Inl e, Inr ov) \<Rightarrow> Inl e
      | (Inr c, Inl e) \<Rightarrow> Inl e
      | (Inl e1, Inl e2) \<Rightarrow> Inl (if overdueRejectsFirst oc then e2 else e1))"

text \<open>The body of the \<^verbatim>\<open>try\<close> block of \<^verbatim>\<open>fetchData\<close>, up to the record it builds.\<close>

definition loadDashboard :: "FetchOutcomes \<Rightarrow> thrown + StudentDashboardData" where
  "loadDashboard oc =
     (case awaitAll oc of
        Inl e \<Rightarrow> Inl e
      | Inr (profile, currentBorrowsRaw, overdueBorrowsRaw) \<Rightarrow>
          (let current = arrayOrEmpty currentBorrowsRaw;
               overdue = arrayOrEmpty overdueBorrowsRaw;
               name = orElse (optProp profile ''fullName'')
                        (orElse (optProp profile ''full_name'')
                          (orElse (optProp profile ''name'')
                            (orElse (optProp profile ''email'') (JString ''Student''))));
               sid = orElse (optProp profile ''studentId'')
                       (orElse (optProp profile ''student_id'')
                         (orElse (optProp profile ''id'') (JString ''N/A'')));
               maj = orElse (optProp profile ''major'')
                       (orElse (optProp profile ''department'')
                         (orElse (optProp profile ''program'') (JString ''Major not set'')))
           in case computeTotalFines overdue of
                Inl e \<Rightarrow> Inl e
              | Inr fines \<Rightarrow>
                  Inr \<lparr> studentName = name, studentId = sid, major = maj,
                        totalBorrows = length current, activeBorrows = length current,
                        totalFines = fines, overdueBooks = overdue,
                        currentBorrows = current \<rparr>))"

text \<open>
  \<^verbatim>\<open>fetchData\<close>: the state after its \<^verbatim>\<open>setState\<close> calls. Its promise always
  resolves: the \<^verbatim>\<open>catch\<close> block stores the message and does not rethrow.
\<close>

definition fetchData :: "FetchOutcomes \<Rightarrow> DashboardState \<Rightarrow> DashboardState" where
  "fetchData oc st =
     (let st1 = st\<lparr> error := None \<rparr> in
      case loadDashboard oc of
        Inr d \<Rightarrow> st1\<lparr> data := Some d, isLoading := False, error := None \<rparr>
      | Inl e \<Rightarrow> st1\<lparr> isLoading := False, error := Some (message (handleApiError e)) \<rparr>)"

definition refresh :: "FetchOutcomes \<Rightarrow> DashboardState \<Rightarrow> DashboardState" where
  "refresh oc st =
     (let st1 = st\<lparr> isRefreshing := True, error := None \<rparr>;
          st2 = fetchData oc st1
      in st2\<lparr> isRefreshing := False \<rparr>)"

text \<open>\<^verbatim>\<open>{ success: true }\<close> or \<^verbatim>\<open>{ success: false, message }\<close>\<close>

datatype PayResult = Success | Failure string

text \<open>
  \<^verbatim>\<open>payFine\<close>, given the outcome of \<^verbatim>\<open>borrowService.payFine\<close> and the outcomes of
  the requests that the following \<^verbatim>\<open>fetchData\<close> issues (they are issued only after a
  successful payment). The result is the state after the \<^verbatim>\<open>finally\<close> block and the
  value the promise resolves with.
\<close>

definition payFine ::
  "thrown + jsval \<Rightarrow> FetchOutcomes \<Rightarrow> DashboardState \<Rightarrow> DashboardState \<times> PayResult" where
  "payFine payOutcome oc st =
     (let st1 = st\<lparr> isPaying := True, payError := None \<rparr> in
      case payOutcome of
        Inr response \<Rightarrow>
          (let st2 = fetchData oc st1 in (st2\<lparr> isPaying := False \<rparr>, Success))
      | Inl e \<Rightarrow>
          (let apiError = handleApiError e;
               st2 = st1\<lparr> payError := Some (message apiError) \<rparr>
           in (st2\<lparr> isPaying := False \<rparr>, Failure (message apiError))))"

text \<open>
  The fine of an overdue item in the words of the spec: the item's fine amount is its
  \<^verbatim>\<open>fine\<close>, or else the \<^verbatim>\<open>fineAmount\<close> of its book; an amount that is missing or
  is not a finite number counts as zero.
\<close>

definition itemFine :: "jsval \<Rightarrow> jsval" where
  "itemFine borrow =
     coalesce (optProp borrow ''fine'') (optProp (optProp borrow ''book'') ''fineAmount'')"

definition amountOrZero :: "jsval \<Rightarrow> rat" where
  "amountOrZero v = (case v of JNumber (Finite r) \<Rightarrow> r | _ \<Rightarrow> 0)"

text \<open>Example data: a dashboard loaded before a payment, and the outcomes of a payment and of the re-fetch after it.\<close>

definition overdueBorrow :: jsval where
  "overdueBorrow = JObject [(''id'', JString ''b1''), (''fine'', JNumber (Finite 5))]"

definition prePaymentData :: StudentDashboardData where
  "prePaymentData =
     \<lparr> studentName = JString ''Student'', studentId = JString ''N/A'',
       major = JString ''Major not set'', totalBorrows = 0, activeBorrows = 0,
       totalFines = 5, overdueBooks = [overdueBorrow], currentBorrows = [] \<rparr>"

definition prePaymentState :: DashboardState where
  "prePaymentState =
     \<lparr> data = Some prePaymentData, isLoading = False, isRefreshing = False,
       isPaying = False, error = None, payError = None \<rparr>"


definition paymentRejected :: "thrown + jsval" where
  "paymentRejected = Inl (ApiClientError ''Fine already paid'' (Some 400) None)"


definition refetchSucceeds :: FetchOutcomes where
  "refetchSucceeds =
     \<lparr> profileOutcome = Inr JNull, currentOutcome = Inr (JArray []),
       overdueOutcome = Inr (JArray []), overdueRejectsFirst = False \<rparr>"


definition exampleFines :: "jsval list" where
  "exampleFines =
     [JObject [(''fine'', JNumber (Finite (25 / 2)))],
      JObject [(''fine'', JUndefined)],
      JObject [(''fine'', JString ''bad'')]]"

subsection \<open>Book search\<close>

text \<open>
  Strings are lists of 8-bit characters (the code points below 256). Of these,
  \<^verbatim>\<open>String.prototype.trim\<close> strips TAB, LF, VT, FF, CR, the space and the no-break
  space from both ends.
\<close>

definition isWhiteSpace :: "char \<Rightarrow> bool" where
  "isWhiteSpace c = (of_char c \<in> {9, 10, 11, 12, 13, 32, 160 :: nat})"

definition trim :: "string \<Rightarrow> string" where
  "trim s = rev (dropWhile isWhiteSpace (rev (dropWhile isWhiteSpace s)))"

text \<open>
  \<^verbatim>\<open>encodeURIComponent\<close>: letters, digits and \<^verbatim>\<open>- _ . ! ~ * ' ( )\<close> stay, every
  other character becomes the percent-encoded bytes of its UTF-8 form (one byte below
  128, two bytes from 128 to 255).
\<close>

definition isUnreserved :: "char \<Rightarrow> bool" where
  "isUnreserved c =
     (c \<in> set ''ABCDEFGHIJKLMNOPQRSTUVWXYZabcdefghijklmnopqrstuvwxyz0123456789-_.!~*()''
      \<or> c = CHR 0x27)"

definition hexDigit :: "nat \<Rightarrow> char" where
  "hexDigit n = ''0123456789ABCDEF'' ! (n mod 16)"

definition percentByte :: "nat \<Rightarrow> string" where
  "percentByte n = [CHR ''%'', hexDigit (n div 16), hexDigit n]"

definition encodeChar :: "char \<Rightarrow> string" where
  "encodeChar c =
     (let n = (of_char c :: nat) in
      if isUnreserved c then [c]
      else if n < 128 then percentByte n
      else percentByte (192 + n div 64) @ percentByte (128 + n mod 64))"

definition encodeURIComponent :: "string \<Rightarrow> string" where
  "encodeURIComponent s = concat (map encodeChar s)"

text \<open>\<^verbatim>\<open>searchBooks\<close>: the requests handed to \<^verbatim>\<open>fetch\<close> and the outcome of the promise.\<close>

definition searchBooks :: "jsval Env \<Rightarrow> string \<Rightarrow> Request list \<times> (thrown + jsval)" where
  "searchBooks env query =
     (if trim query = [] then ([], Inr (JArray []))
      else apiClient_get env (''/api/books/search?q='' @ encodeURIComponent query))"

text \<open>An example server that answers every request with the URL it was asked for.\<close>

definition echoFetch :: "Request \<Rightarrow> thrown + jsval Response" where
  "echoFetch request =
     Inr \<lparr> status = 200, errorJson = None, dataJson = Inr (JArray [JString (url request)]) \<rparr>"

definition echoEnv :: "jsval Env" where
  "echoEnv =
     \<lparr> API_BASE_URL = ''http://192.168.1.6:3000'', storedToken = Some ''t0k'',
       fetch = echoFetch \<rparr>"

subsection \<open>Days left and greeting\<close>

text \<open>
  A \<^verbatim>\<open>Date\<close> is its time value, the milliseconds since the epoch. What the functions
  below read from their surroundings and not from their parameters: the clock
  (\<^verbatim>\<open>new Date()\<close>) and the local time zone. A zone is the two offsets of the
  language standard, in milliseconds: the offset in force at a UTC instant, and the
  offset the zone gives to a local time (where a local time occurs twice or not at all,
  the offset before the change). In a zone with daylight saving both vary.
\<close>

record Ambient =
  now :: int
  offsetAtUTC :: "int \<Rightarrow> int"
  offsetAtLocal :: "int \<Rightarrow> int"

definition msPerDay :: int where
  "msPerDay = 1000 * 60 * 60 * 24"

definition msPerHour :: int where
  "msPerHour = 1000 * 60 * 60"

text \<open>The standard's \<^verbatim>\<open>LocalTime(t)\<close>, \<^verbatim>\<open>UTC(t)\<close>, \<^verbatim>\<open>Day(t)\<close>, \<^verbatim>\<open>MakeTime\<close> and \<^verbatim>\<open>MakeDate\<close>.\<close>

definition LocalTime :: "Ambient \<Rightarrow> int \<Rightarrow> int" where
  "LocalTime amb t = t + offsetAtUTC amb t"

definition UTC :: "Ambient \<Rightarrow> int \<Rightarrow> int" where
  "UTC amb t = t - offsetAtLocal amb t"

definition Day :: "int \<Rightarrow> int" where
  "Day t = t div msPerDay"

definition MakeTime :: "int \<Rightarrow> int \<Rightarrow> int \<Rightarrow> int \<Rightarrow> int" where
  "MakeTime h m s milli = h * msPerHour + m * (1000 * 60) + s * 1000 + milli"

definition MakeDate :: "int \<Rightarrow> int \<Rightarrow> int" where
  "MakeDate day time = day * msPerDay + time"

text \<open>
  \<^verbatim>\<open>date.setHours(0, 0, 0, 0)\<close>: the date goes to local time, its time within the day
  is replaced by 00:00:00.000, and the result goes back to UTC.
\<close>

definition setHoursZero :: "Ambient \<Rightarrow> int \<Rightarrow> int" where
  "setHoursZero amb t =
     (let local = LocalTime amb t;
          date = MakeDate (Day local) (MakeTime 0 0 0 0)
      in UTC amb date)"

text \<open>\<^verbatim>\<open>date.getHours()\<close>: the hour of the local time.\<close>

definition getHours :: "Ambient \<Rightarrow> int \<Rightarrow> int" where
  "getHours amb t = (LocalTime amb t div msPerHour) mod 24"

text \<open>
  \<^verbatim>\<open>calculateDaysLeft(dueDate)\<close> of the web dashboard. The parameter is the time value
  of \<^verbatim>\<open>new Date(dueDate)\<close>, \<open>None\<close> for a string that is no date; the result is then
  \<^verbatim>\<open>NaN\<close>, here \<open>None\<close>.
\<close>

definition calculateDaysLeft :: "Ambient \<Rightarrow> int option \<Rightarrow> int option" where
  "calculateDaysLeft amb dueDate =
     (let today = setHoursZero amb (now amb) in
      case dueDate of
        None \<Rightarrow> None
      | Some d \<Rightarrow>
          (let due = setHoursZero amb d;
               diffTime = due - today;
               diffDays = \<lceil>(of_int diffTime :: rat) / of_int (1000 * 60 * 60 * 24)\<rceil>
           in Some diffDays))"

text \<open>The \<^verbatim>\<open>greeting\<close> of the web dashboard; it has no parameter.\<close>

definition greeting :: "Ambient \<Rightarrow> string" where
  "greeting amb =
     (let hour = getHours amb (now amb) in
      if hour < 12 then ''Good Morning''
      else if hour < 17 then ''Good Afternoon''
      else ''Good Evening'')"

text \<open>
  In the words of the spec: the number of the local calendar day of an instant, and the
  instant normalized to local midnight, which is the instant the zone gives to 00:00 of
  that local day.
\<close>

definition localDay :: "Ambient \<Rightarrow> int \<Rightarrow> int" where
  "localDay amb t = (t + offsetAtUTC amb t) div msPerDay"

definition localMidnight :: "Ambient \<Rightarrow> int \<Rightarrow> int" where
  "localMidnight amb t =
     localDay amb t * msPerDay - offsetAtLocal amb (localDay amb t * msPerDay)"

text \<open>
  \<^verbatim>\<open>differenceInCalendarDays\<close> of the date-fns library: the number of local calendar
  days from the right date to the left one, whatever the times of day and the offsets.
\<close>

definition differenceInCalendarDays :: "Ambient \<Rightarrow> int \<Rightarrow> int \<Rightarrow> int" where
  "differenceInCalendarDays amb dateLeft dateRight =
     Day (LocalTime amb dateLeft) - Day (LocalTime amb dateRight)"

text \<open>
  \<^verbatim>\<open>parseDate\<close> of the mobile dashboard: the parameter is the time value the string
  parses to, \<open>None\<close> when the string is missing or no parser accepts it; the result is
  then the current time.
\<close>

definition parseDate :: "Ambient \<Rightarrow> int option \<Rightarrow> int" where
  "parseDate amb v = (case v of None \<Rightarrow> now amb | Some t \<Rightarrow> t)"

definition getDaysLeft :: "Ambient \<Rightarrow> int option \<Rightarrow> int" where
  "getDaysLeft amb dueDate =
     max 0 (differenceInCalendarDays amb (parseDate amb dueDate) (now amb))"

definition getDaysOverdue :: "Ambient \<Rightarrow> int option \<Rightarrow> int" where
  "getDaysOverdue amb dueDate =
     max 0 (differenceInCalendarDays amb (now amb) (parseDate amb dueDate))"

text \<open>
  Example zones. The zone at UTC, and a zone with New York's rules for 2024: five hours
  behind UTC, four hours behind from 2024-03-10 07:00 UTC (02:00 local becomes 03:00)
  until 2024-11-03 06:00 UTC (02:00 local becomes 01:00).
\<close>

definition utcZone :: "int \<Rightarrow> int" where
  "utcZone t = 0"

definition newYorkAtUTC :: "int \<Rightarrow> int" where
  "newYorkAtUTC t =
     (if 1710054000000 \<le> t \<and> t < 1730613600000 then - (4 * msPerHour) else - (5 * msPerHour))"

definition newYorkAtLocal :: "int \<Rightarrow> int" where
  "newYorkAtLocal t =
     (if 1710039600000 \<le> t \<and> t < 1730599200000 then - (4 * msPerHour) else - (5 * msPerHour))"

definition atUTC :: "int \<Rightarrow> Ambient" where
  "atUTC t = \<lparr> now = t, offsetAtUTC = utcZone, offsetAtLocal = utcZone \<rparr>"

definition inNewYork :: "int \<Rightarrow> Ambient" where
  "inNewYork t = \<lparr> now = t, offsetAtUTC = newYorkAtUTC, offsetAtLocal = newYorkAtLocal \<rparr>"

text \<open>
  Midnight UTC of 2024-01-08 and of 2024-01-10, and two clocks in the zone at UTC:
  2024-01-08 at 00:00 and 2024-01-10 at 18:00.
\<close>

definition jan08 :: int where
  "jan08 = 1704672000000"

definition jan10 :: int where
  "jan10 = 1704844800000"

definition onJan08 :: Ambient where
  "onJan08 = atUTC jan08"

definition onJan10 :: Ambient where
  "onJan10 = atUTC (jan10 + 18 * 3600000)"

text \<open>
  Instants in New York: 2024-01-08 at 09:30 and 2024-01-10 at 00:00 local time (in
  winter); 2024-11-02 at 12:00 and 2024-11-04 at 00:00 (the clocks go back in between);
  2024-03-11 at 08:00 and 2024-03-09 at 00:00 (the clocks go forward in between).
\<close>

definition nyJan08 :: int where
  "nyJan08 = 1704724200000"

definition nyJan10 :: int where
  "nyJan10 = 1704862800000"

definition nyNov02 :: int where
  "nyNov02 = 1730563200000"

definition nyNov04 :: int where
  "nyNov04 = 1730696400000"

definition nyMar11 :: int where
  "nyMar11 = 1710158400000"

definition nyMar09 :: int where
  "nyMar09 = 1709960400000"

subsection \<open>Availability badges\<close>

text \<open>
  \<^verbatim>\<open>toLowerCase\<close> on 8-bit characters: A to Z and the capital letters of Latin-1
  (192 to 222 but the multiplication sign 215) move up by 32.
\<close>

definition toLowerChar :: "char \<Rightarrow> char" where
  "toLowerChar c =
     (let n = (of_char c :: nat) in
      if (65 \<le> n \<and> n \<le> 90) \<or> (192 \<le> n \<and> n \<le> 222 \<and> n \<noteq> 215)
      then char_of (n + 32) else c)"

definition toLowerCase :: "string \<Rightarrow> string" where
  "toLowerCase s = map toLowerChar s"

text \<open>\<^verbatim>\<open>s.includes(search)\<close>\<close>

definition String_includes :: "string \<Rightarrow> string \<Rightarrow> bool" where
  "String_includes s search = sublist search s"

text \<open>\<^verbatim>\<open>value || fallback\<close> for a string that may be missing.\<close>

definition orDefault :: "string option \<Rightarrow> string \<Rightarrow> string" where
  "orDefault v d = (case v of None \<Rightarrow> d | Some s \<Rightarrow> if s \<noteq> [] then s else d)"

text \<open>\<^verbatim>\<open>badgeClassByAvailability\<close> of the browsing page.\<close>

definition badgeClassByAvailability :: "string option \<Rightarrow> string" where
  "badgeClassByAvailability availability =
     (let status = toLowerCase (orDefault availability []) in
      if String_includes status ''available'' then ''bg-emerald-100 text-success''
      else if String_includes status ''checked'' then ''bg-amber-100 text-warning''
      else ''bg-primary-100 text-primary'')"

text \<open>
  The badge of a book card on the browsing page: its class, and the text of its
  \<^verbatim>\<open><span>{book.availability}</span>\<close>.
\<close>

definition bookCardBadge :: "string option \<Rightarrow> string \<times> string option" where
  "bookCardBadge availability = (badgeClassByAvailability availability, availability)"

text \<open>\<^verbatim>\<open>availabilityStyles\<close> of the detail view.\<close>

datatype Icon = CheckCircle | Timer | Bookmark

record AvailabilityStyles =
  className :: string
  icon :: Icon
  label :: string

definition availabilityStyles :: "string option \<Rightarrow> AvailabilityStyles" where
  "availabilityStyles availability =
     (let status = toLowerCase (orDefault availability ''Available'') in
      if String_includes status ''available'' then
        \<lparr> className = ''bg-emerald-100 text-success dark:bg-emerald-900/40 dark:text-emerald-200'',
          icon = CheckCircle, label = ''Available'' \<rparr>
      else if String_includes status ''checked'' then
        \<lparr> className = ''bg-amber-100 text-warning dark:bg-amber-900/40 dark:text-amber-200'',
          icon = Timer, label = ''Checked Out'' \<rparr>
      else
        \<lparr> className = ''bg-primary-100 text-primary dark:bg-blue-900/40 dark:text-blue-200'',
          icon = Bookmark, label = ''On Hold'' \<rparr>)"

text \<open>
  The spec's "contains \<open>n\<close>, in any case": some substring of \<open>s\<close> is \<open>n\<close> up to the
  case of its letters.
\<close>

definition containsIgnoringCase :: "string \<Rightarrow> string \<Rightarrow> bool" where
  "containsIgnoringCase s n = (\<exists>w. sublist w s \<and> toLowerCase w = n)"


subsection \<open>Properties of the auth store\<close>

lemma BooleanOfToken_nonempty: "BooleanOfToken t \<longleftrightarrow> (\<exists>s. t = Some s \<and> s \<noteq> [])"
  by (cases t) simp_all

lemma setAuth_token: "token (setAuth p s) = (case p_token p of Value t \<Rightarrow> Some t | _ \<Rightarrow> None)"
  by (cases "p_token p") (simp_all add: setAuth_def Let_def)

lemma setAuth_user: "user (setAuth p s) = (case p_user p of Value u \<Rightarrow> Some u | _ \<Rightarrow> None)"
  by (cases "p_user p") (simp_all add: setAuth_def Let_def)

lemma setAuth_isAuthenticated:
  "isAuthenticated (setAuth p s) \<longleftrightarrow> (\<exists>t. p_token p = Value t \<and> t \<noteq> [])"
  by (cases "p_token p") (simp_all add: setAuth_def Let_def)

lemma authInv_step: "authInv s \<Longrightarrow> authInv (authStep s a)"
proof (cases a)
  case (SetHydrated v)
  assume "authInv s"
  then show ?thesis
    using SetHydrated by (simp add: authInv_def setHydrated_def)
next
  case (SetAuth p)
  show ?thesis
    unfolding SetAuth authStep.simps authInv_def setAuth_token setAuth_isAuthenticated
    by (cases "p_token p") simp_all
next
  case Logout
  show ?thesis
    using Logout by (simp add: authInv_def logout_def)
qed

lemma authInv_foldl: "authInv s \<Longrightarrow> authInv (foldl authStep s acts)"
  by (induction acts arbitrary: s) (simp_all add: authInv_step)

text \<open>
  C9. \<open>isAuthenticated\<close> is true exactly when the stored token is a non-empty string.
  The initial state satisfies this. \<open>setAuth\<close> stores the token and the user of its
  payload (nothing for a missing or \<^verbatim>\<open>null\<close> one) and sets the flag to true exactly
  when that token is a non-empty string. \<open>logout\<close> clears user, token and flag
  together. \<open>setHydrated\<close> leaves all three as they are. So every state reached from
  the initial one by the store's actions satisfies the invariant.
\<close>

theorem auth_store_invariant:
  "(isAuthenticated initialAuthState \<longleftrightarrow> (\<exists>t. token initialAuthState = Some t \<and> t \<noteq> []))
   \<and> token (setAuth p s) = (case p_token p of Value t \<Rightarrow> Some t | _ \<Rightarrow> None)
   \<and> user (setAuth p s) = (case p_user p of Value u \<Rightarrow> Some u | _ \<Rightarrow> None)
   \<and> (isAuthenticated (setAuth p s) \<longleftrightarrow> (\<exists>t. p_token p = Value t \<and> t \<noteq> []))
   \<and> (isAuthenticated (setAuth p s) \<longleftrightarrow> (\<exists>t. token (setAuth p s) = Some t \<and> t \<noteq> []))
   \<and> user (logout s) = None \<and> token (logout s) = None \<and> isAuthenticated (logout s) = False
   \<and> user (setHydrated v s) = user s \<and> token (setHydrated v s) = token s
   \<and> isAuthenticated (setHydrated v s) = isAuthenticated s
   \<and> (isAuthenticated (authRun acts) \<longleftrightarrow> (\<exists>t. token (authRun acts) = Some t \<and> t \<noteq> []))"
proof -
  have init: "authInv initialAuthState"
    by (simp add: authInv_def initialAuthState_def)
  have run: "authInv (authRun acts)"
    unfolding authRun_def using init by (rule authInv_foldl)
  have sa: "authInv (setAuth p s)"
    using authInv_step [of "setAuth p s" "SetAuth p"]
    unfolding authInv_def setAuth_token setAuth_isAuthenticated
    by (cases "p_token p") simp_all
  have rest: "user (logout s) = None \<and> token (logout s) = None
      \<and> isAuthenticated (logout s) = False
      \<and> user (setHydrated v s) = user s \<and> token (setHydrated v s) = token s
      \<and> isAuthenticated (setHydrated v s) = isAuthenticated s"
    by (simp add: logout_def setHydrated_def)
  show ?thesis
    using init run sa rest setAuth_token [of p s] setAuth_user [of p s]
      setAuth_isAuthenticated [of p s]
    unfolding authInv_def by blast
qed

text \<open>
  Logging in with the token \<^verbatim>\<open>"abc"\<close> authenticates, also after hydration; an empty
  token does not; logging out afterwards ends it.
\<close>

theorem auth_store_invariant_witness:
  "isAuthenticated (setAuth loginPayload initialAuthState)
   \<and> token (setAuth loginPayload initialAuthState) = Some ''abc''
   \<and> \<not> isAuthenticated (setAuth emptyTokenPayload (setAuth loginPayload initialAuthState))
   \<and> token (authRun [SetAuth loginPayload, SetHydrated True]) = Some ''abc''
   \<and> isAuthenticated (authRun [SetAuth loginPayload, SetHydrated True])
   \<and> \<not> isAuthenticated (logout (authRun [SetAuth loginPayload, SetHydrated True]))"
proof -
  have p1: "p_token loginPayload = Value ''abc''"
    by (simp add: loginPayload_def)
  have p2: "p_token emptyTokenPayload = Value []"
    by (simp add: emptyTokenPayload_def)
  note t1 = auth_store_invariant [of loginPayload initialAuthState]
  note t2 = auth_store_invariant [of emptyTokenPayload "setAuth loginPayload initialAuthState"]
  note t3 = auth_store_invariant
              [of loginPayload "authRun [SetAuth loginPayload, SetHydrated True]" True
                  "[SetAuth loginPayload, SetHydrated True]"]
  have a: "isAuthenticated (setAuth loginPayload initialAuthState)"
    using t1 p1 by simp
  have b: "token (setAuth loginPayload initialAuthState) = Some ''abc''"
    using t1 p1 by simp
  have c: "\<not> isAuthenticated (setAuth emptyTokenPayload (setAuth loginPayload initialAuthState))"
    using t2 p2 by simp
  have d: "token (authRun [SetAuth loginPayload, SetHydrated True]) = Some ''abc''"
    by (simp add: authRun_def setHydrated_def setAuth_def loginPayload_def Let_def)
  have e: "isAuthenticated (authRun [SetAuth loginPayload, SetHydrated True])"
    using t3 d by simp
  have f: "\<not> isAuthenticated (logout (authRun [SetAuth loginPayload, SetHydrated True]))"
    using t3 by simp
  show ?thesis
    using a b c d e f by simp
qed

subsection \<open>Properties of the HTTP client\<close>

lemma apiClient_get_transport:
  "fetch env (getRequest env endpoint) = Inl e \<Longrightarrow>
   apiClient_get env endpoint = ([getRequest env endpoint], Inl e)"
  by (simp add: apiClient_get_def Let_def)

lemma handleApiError_plain:
  "\<not> isApiClientError e \<Longrightarrow>
   statusCode (handleApiError e) = None \<and> errors (handleApiError e) = None"
  by (cases e) simp_all

text \<open>
  C5, as the spec states it, fails: when \<^verbatim>\<open>fetch\<close> rejects with the browser's
  \<^verbatim>\<open>TypeError("Failed to fetch")\<close>, the client rethrows it and \<^verbatim>\<open>handleApiError\<close>
  keeps that message; it is not the generic text.
\<close>

theorem transport_error_message_counterexample:
  "snd (apiClient_get offlineEnv ''/api/borrow/current'')
     = Inl (JsError ''TypeError'' ''Failed to fetch'')
   \<and> message (handleApiError (JsError ''TypeError'' ''Failed to fetch'')) = ''Failed to fetch''
   \<and> message (handleApiError (JsError ''TypeError'' ''Failed to fetch''))
       \<noteq> ''An unexpected error occurred''"
  by (simp add: apiClient_get_def offlineEnv_def offlineFetch_def Let_def orString_def)

text \<open>
  C5, amended. When no response is received (\<^verbatim>\<open>fetch\<close> rejects with a value that is
  not an \<^verbatim>\<open>ApiClientError\<close>), the client issues the one request and rejects with that
  same value; \<^verbatim>\<open>handleApiError\<close> turns it into an \<^verbatim>\<open>ApiError\<close> with no status code
  and no field errors, whose message is the error's own message when it is a non-empty
  \<^verbatim>\<open>Error\<close> message and the generic "An unexpected error occurred" otherwise.
\<close>

theorem transport_error_normalised:
  assumes "fetch env (getRequest env endpoint) = Inl e" and "\<not> isApiClientError e"
  shows "apiClient_get env endpoint = ([getRequest env endpoint], Inl e)
         \<and> statusCode (handleApiError e) = None
         \<and> errors (handleApiError e) = None
         \<and> message (handleApiError e)
             = (case e of JsError n m \<Rightarrow> if m \<noteq> [] then m else ''An unexpected error occurred''
                | _ \<Rightarrow> ''An unexpected error occurred'')"
proof -
  have msg: "message (handleApiError e)
             = (case e of JsError n m \<Rightarrow> if m \<noteq> [] then m else ''An unexpected error occurred''
                | _ \<Rightarrow> ''An unexpected error occurred'')"
    using assms(2) by (cases e) (simp_all add: orString_def)
  show ?thesis
    using apiClient_get_transport [OF assms(1)] handleApiError_plain [OF assms(2)] msg
    by simp
qed

theorem transport_error_normalised_witness:
  "fetch offlineEnv (getRequest offlineEnv ''/api/borrow/current'')
     = Inl (JsError ''TypeError'' ''Failed to fetch'')
   \<and> \<not> isApiClientError (JsError ''TypeError'' ''Failed to fetch'')
   \<and> apiClient_get offlineEnv ''/api/borrow/current''
       = ([getRequest offlineEnv ''/api/borrow/current''],
          Inl (JsError ''TypeError'' ''Failed to fetch''))
   \<and> statusCode (handleApiError (JsError ''TypeError'' ''Failed to fetch'')) = None
   \<and> message (handleApiError (JsError ''TypeError'' ''Failed to fetch'')) = ''Failed to fetch''"
proof -
  have h1: "fetch offlineEnv (getRequest offlineEnv ''/api/borrow/current'')
              = Inl (JsError ''TypeError'' ''Failed to fetch'')"
    by (simp add: offlineEnv_def offlineFetch_def)
  have h2: "\<not> isApiClientError (JsError ''TypeError'' ''Failed to fetch'')"
    by simp
  show ?thesis
    using transport_error_normalised [OF h1 h2] h1 by simp
qed

text \<open>
  For a response outside 200..299 whose body is not the JSON literal \<^verbatim>\<open>null\<close>, the
  client rejects with an \<^verbatim>\<open>ApiClientError\<close> that carries the status, the field errors
  of the body, and the body's message, or "Request failed" when the body is not JSON, or
  "GET <endpoint> failed" when the body has no (or an empty) message.
\<close>

lemma apiClient_get_error_response:
  assumes "fetch env (getRequest env endpoint) = Inr r" and "\<not> ok r"
    and "errorJson r \<noteq> Some JsonNull"
  shows "\<exists>m. snd (apiClient_get env endpoint)
               = Inl (ApiClientError m (Some (status r))
                        (case errorJson r of Some (JsonValue t es) \<Rightarrow> es | _ \<Rightarrow> None))
             \<and> m = (case errorJson r of
                       None \<Rightarrow> ''Request failed''
                     | Some (JsonValue (Some t) es) \<Rightarrow>
                         if t \<noteq> [] then t else ''GET '' @ endpoint @ '' failed''
                     | _ \<Rightarrow> ''GET '' @ endpoint @ '' failed'')"
  using assms
  by (auto simp: apiClient_get_def Let_def orString_def
           split: option.splits ErrorData.splits)

text \<open>
  C6 at the input where the code departs from it: a 500 response whose body is the JSON
  literal \<^verbatim>\<open>null\<close>. \<^verbatim>\<open>response.json()\<close> resolves with \<^verbatim>\<open>null\<close>, reading
  \<^verbatim>\<open>errorData.message\<close> throws, and the promise rejects with a \<^verbatim>\<open>TypeError\<close>: no
  \<^verbatim>\<open>ApiClientError\<close>, and no status code after \<^verbatim>\<open>handleApiError\<close>.
\<close>

theorem apiClient_get_null_body:
  "snd (apiClient_get nullBodyEnv ''/api/borrow/current'') = Inl (nullPropertyError ''message'')
   \<and> \<not> isApiClientError (nullPropertyError ''message'')
   \<and> statusCode (handleApiError (nullPropertyError ''message'')) = None"
  by (simp add: apiClient_get_def nullBodyEnv_def nullBodyFetch_def Let_def ok_def
        nullPropertyError_def)

subsection \<open>Properties of the dashboard hook\<close>

lemma fineOf_object:
  "\<not> isNullish b \<Longrightarrow>
   \<exists>f. fineOf b = Inr f \<and> addFine acc f = acc + amountOrZero (itemFine b)"
  by (cases b)
     (auto simp: fineOf_def itemFine_def amountOrZero_def addFine_def coalesce_def Let_def
           split: option.splits jsval.splits jsnum.splits)

lemma reduceFines_sum:
  "\<forall>b\<in>set bs. \<not> isNullish b \<Longrightarrow>
   reduceFines acc bs = Inr (acc + sum_list (map (\<lambda>b. amountOrZero (itemFine b)) bs))"
proof (induction bs arbitrary: acc)
  case Nil
  then show ?case by simp
next
  case (Cons b bs)
  then obtain f where f: "fineOf b = Inr f" "addFine acc f = acc + amountOrZero (itemFine b)"
    using fineOf_object [of b acc] by auto
  show ?case using Cons f by (simp add: add.assoc)
qed

text \<open>
  C4. For every list of overdue borrows (each one an object, not \<^verbatim>\<open>null\<close> or
  \<^verbatim>\<open>undefined\<close>), the total is the sum over the items of the item's fine amount, where
  an amount that is missing, \<^verbatim>\<open>NaN\<close>, infinite or not a number counts as zero.
\<close>

theorem total_fines_sum:
  assumes "\<forall>b\<in>set bs. \<not> isNullish b"
  shows "computeTotalFines bs = Inr (sum_list (map (\<lambda>b. amountOrZero (itemFine b)) bs))
         \<and> amountOrZero JUndefined = 0 \<and> amountOrZero JNull = 0
         \<and> amountOrZero (JNumber NaN) = 0 \<and> amountOrZero (JNumber PosInfinity) = 0
         \<and> amountOrZero (JNumber NegInfinity) = 0 \<and> amountOrZero (JString t) = 0
         \<and> amountOrZero (JBool c) = 0 \<and> amountOrZero (JArray xs) = 0
         \<and> amountOrZero (JObject kvs) = 0
         \<and> amountOrZero (JNumber (Finite r)) = r"
  using reduceFines_sum [OF assms, of 0]
  by (simp add: computeTotalFines_def amountOrZero_def)

text \<open>The fine list \<^verbatim>\<open>[12.5, undefined, "bad"]\<close> totals 12.5.\<close>

theorem total_fines_sum_witness:
  "list_all (\<lambda>b. \<not> isNullish b) exampleFines
   \<and> computeTotalFines exampleFines = Inr (25 / 2)"
proof -
  have h: "\<forall>b\<in>set exampleFines. \<not> isNullish b"
    by (simp add: exampleFines_def)
  have "sum_list (map (\<lambda>b. amountOrZero (itemFine b)) exampleFines) = 25 / 2"
    by (simp add: exampleFines_def itemFine_def amountOrZero_def coalesce_def)
  then show ?thesis
    using total_fines_sum [OF h] h by (simp add: list_all_iff)
qed

text \<open>
  C7. When \<^verbatim>\<open>payFine\<close> fails, that is, resolves with \<^verbatim>\<open>success: false\<close>, the
  payment request was rejected, and of the dashboard state only \<^verbatim>\<open>payError\<close> (now
  the message) and \<^verbatim>\<open>isPaying\<close> (now false) are written: \<^verbatim>\<open>data\<close>, \<^verbatim>\<open>error\<close>,
  \<^verbatim>\<open>isLoading\<close> and \<^verbatim>\<open>isRefreshing\<close> keep their values.
\<close>

theorem pay_fine_failure_frame:
  assumes "snd (payFine p oc st) = Failure m"
  shows "(\<exists>e. p = Inl e \<and> m = message (handleApiError e))
         \<and> data (fst (payFine p oc st)) = data st
         \<and> error (fst (payFine p oc st)) = error st
         \<and> isLoading (fst (payFine p oc st)) = isLoading st
         \<and> isRefreshing (fst (payFine p oc st)) = isRefreshing st
         \<and> payError (fst (payFine p oc st)) = Some m
         \<and> isPaying (fst (payFine p oc st)) = False"
  using assms
  by (cases p) (auto simp: payFine_def fetchData_def Let_def split: sum.splits)

theorem pay_fine_failure_frame_witness:
  "snd (payFine paymentRejected refetchSucceeds prePaymentState) = Failure ''Fine already paid''
   \<and> data (fst (payFine paymentRejected refetchSucceeds prePaymentState)) = Some prePaymentData
   \<and> payError (fst (payFine paymentRejected refetchSucceeds prePaymentState))
       = Some ''Fine already paid''"
proof -
  have h: "snd (payFine paymentRejected refetchSucceeds prePaymentState)
             = Failure ''Fine already paid''"
    by (simp add: payFine_def paymentRejected_def Let_def)
  have d: "data prePaymentState = Some prePaymentData"
    by (simp add: prePaymentState_def)
  show ?thesis
    using pay_fine_failure_frame [OF h] h d by simp
qed




subsection \<open>Properties of the book search\<close>

lemma trim_empty: "trim s = [] \<longleftrightarrow> (\<forall>c\<in>set s. isWhiteSpace c)"
proof
  assume "trim s = []"
  then have a: "\<forall>c\<in>set (dropWhile isWhiteSpace s). isWhiteSpace c"
    by (simp add: trim_def dropWhile_eq_Nil_conv)
  have "dropWhile isWhiteSpace s = []"
  proof (rule ccontr)
    assume n: "dropWhile isWhiteSpace s \<noteq> []"
    then have "\<not> isWhiteSpace (hd (dropWhile isWhiteSpace s))"
      by (rule hd_dropWhile)
    moreover have "hd (dropWhile isWhiteSpace s) \<in> set (dropWhile isWhiteSpace s)"
      using n by simp
    ultimately show False using a by blast
  qed
  then show "\<forall>c\<in>set s. isWhiteSpace c"
    by (simp add: dropWhile_eq_Nil_conv)
next
  assume "\<forall>c\<in>set s. isWhiteSpace c"
  then have e: "dropWhile isWhiteSpace s = []"
    by (simp add: dropWhile_eq_Nil_conv)
  show "trim s = []"
    by (simp only: trim_def e rev.simps dropWhile.simps)
qed

lemma apiClient_get_one_request:
  "fst (apiClient_get env endpoint) = [getRequest env endpoint]"
  by (simp add: apiClient_get_def Let_def split: sum.splits option.splits ErrorData.splits)

text \<open>
  C10. A query that is empty or all whitespace makes \<^verbatim>\<open>searchBooks\<close> resolve with
  the empty list without any request; a query with a character that is not whitespace
  issues exactly one GET request, to the search endpoint. So a request is made only for
  queries that contain a non-whitespace character.
\<close>

theorem search_books_blank:
  "((\<forall>c\<in>set query. isWhiteSpace c) \<longrightarrow> searchBooks env query = ([], Inr (JArray [])))
   \<and> ((\<exists>c\<in>set query. \<not> isWhiteSpace c) \<longrightarrow>
        fst (searchBooks env query)
          = [getRequest env (''/api/books/search?q='' @ encodeURIComponent query)])
   \<and> (fst (searchBooks env query) \<noteq> [] \<longrightarrow> (\<exists>c\<in>set query. \<not> isWhiteSpace c))"
proof -
  have blank: "(\<forall>c\<in>set query. isWhiteSpace c) \<Longrightarrow> searchBooks env query = ([], Inr (JArray []))"
    by (simp add: searchBooks_def trim_empty)
  have other: "(\<exists>c\<in>set query. \<not> isWhiteSpace c) \<Longrightarrow>
      fst (searchBooks env query)
        = [getRequest env (''/api/books/search?q='' @ encodeURIComponent query)]"
  proof -
    assume "\<exists>c\<in>set query. \<not> isWhiteSpace c"
    then have "trim query \<noteq> []"
      by (simp add: trim_empty)
    then show ?thesis
      by (simp add: searchBooks_def apiClient_get_one_request)
  qed
  have only: "fst (searchBooks env query) \<noteq> [] \<Longrightarrow> (\<exists>c\<in>set query. \<not> isWhiteSpace c)"
    using blank by fastforce
  show ?thesis
    using blank other only by blast
qed

theorem search_books_blank_witness:
  "list_all isWhiteSpace ''  ''
   \<and> searchBooks echoEnv ''  '' = ([], Inr (JArray []))
   \<and> (\<exists>c\<in>set '' dune ''. \<not> isWhiteSpace c)
   \<and> fst (searchBooks echoEnv '' dune '') \<noteq> []
   \<and> fst (searchBooks echoEnv '' dune '')
       = [getRequest echoEnv (''/api/books/search?q='' @ encodeURIComponent '' dune '')]"
proof -
  have h1: "\<forall>c\<in>set ''  ''. isWhiteSpace c"
    by (simp add: isWhiteSpace_def)
  have h2: "\<exists>c\<in>set '' dune ''. \<not> isWhiteSpace c"
    by (simp add: isWhiteSpace_def)
  have r1: "searchBooks echoEnv ''  '' = ([], Inr (JArray []))"
    using search_books_blank [of "''  ''" echoEnv] h1 by blast
  have r2: "fst (searchBooks echoEnv '' dune '')
       = [getRequest echoEnv (''/api/books/search?q='' @ encodeURIComponent '' dune '')]"
    using search_books_blank [of "'' dune ''" echoEnv] h2 by blast
  show ?thesis
    using h1 h2 r1 r2 by (simp add: list_all_iff)
qed

subsection \<open>Properties of the date helpers\<close>

lemma setHoursZero_localMidnight: "setHoursZero amb t = localMidnight amb t"
  by (simp add: setHoursZero_def localMidnight_def localDay_def LocalTime_def UTC_def
        Day_def MakeDate_def MakeTime_def Let_def)

lemma calculateDaysLeft_ceiling:
  "calculateDaysLeft amb (Some d)
     = Some \<lceil>(of_int (localMidnight amb d - localMidnight amb (now amb)) :: rat)
              / of_int msPerDay\<rceil>"
  by (simp add: calculateDaysLeft_def Let_def setHoursZero_localMidnight msPerDay_def)

lemma ceiling_whole_days:
  "\<lceil>(of_int (k * msPerDay) :: rat) / of_int msPerDay\<rceil> = k"
proof -
  have "(of_int (k * msPerDay) :: rat) / of_int msPerDay = of_int k"
    by (simp add: msPerDay_def)
  then show ?thesis
    by (simp only: ceiling_of_int)
qed

lemma calculateDaysLeft_same_offset:
  assumes "offsetAtLocal amb (localDay amb d * msPerDay)
             = offsetAtLocal amb (localDay amb (now amb) * msPerDay)"
  shows "calculateDaysLeft amb (Some d) = Some (localDay amb d - localDay amb (now amb))"
proof -
  have "localMidnight amb d - localMidnight amb (now amb)
          = (localDay amb d - localDay amb (now amb)) * msPerDay"
    using assms by (simp add: localMidnight_def algebra_simps)
  then show ?thesis
    by (simp only: calculateDaysLeft_ceiling ceiling_whole_days)
qed

text \<open>
  C1, as the spec states it, fails for the mobile dashboard: with a due date of
  2024-01-08 and the clock at 2024-01-10, the quotient of the spec is \<open>-2\<close>, which
  \<^verbatim>\<open>calculateDaysLeft\<close> returns, while \<^verbatim>\<open>getDaysLeft\<close> returns \<open>0\<close>.
\<close>

theorem days_left_clamped_counterexample:
  "\<lceil>(of_int (localMidnight onJan10 jan08 - localMidnight onJan10 (now onJan10)) :: rat)
      / of_int msPerDay\<rceil> = - 2
   \<and> calculateDaysLeft onJan10 (Some jan08) = Some (- 2)
   \<and> getDaysLeft onJan10 (Some jan08) = 0"
  by (simp add: calculateDaysLeft_def getDaysLeft_def differenceInCalendarDays_def
        parseDate_def localMidnight_def localDay_def setHoursZero_def LocalTime_def UTC_def
        Day_def MakeDate_def MakeTime_def onJan10_def atUTC_def utcZone_def jan08_def
        jan10_def msPerDay_def Let_def)

text \<open>
  C1, amended. For every due date \<open>d\<close>, every clock and every zone,
  \<^verbatim>\<open>calculateDaysLeft\<close> returns the ceiling of (due date normalized to local midnight
  minus now normalized to local midnight) over one day. When the zone has the same
  offset at those two midnights, this is the number of local calendar days from today
  to the due day, so a negative value says that the item is overdue by that many days.
  \<^verbatim>\<open>getDaysLeft\<close> returns the number of local calendar days from today to the due day
  but never less than 0, and the days overdue are what \<^verbatim>\<open>getDaysOverdue\<close> returns.
\<close>

theorem days_left_value:
  "calculateDaysLeft amb (Some d)
     = Some \<lceil>(of_int (localMidnight amb d - localMidnight amb (now amb)) :: rat)
              / of_int msPerDay\<rceil>
   \<and> (offsetAtLocal amb (localDay amb d * msPerDay)
         = offsetAtLocal amb (localDay amb (now amb) * msPerDay)
       \<longrightarrow> calculateDaysLeft amb (Some d) = Some (localDay amb d - localDay amb (now amb)))
   \<and> getDaysLeft amb (Some d) = max 0 (localDay amb d - localDay amb (now amb))
   \<and> getDaysOverdue amb (Some d) = max 0 (localDay amb (now amb) - localDay amb d)"
proof -
  have g: "getDaysLeft amb (Some d) = max 0 (localDay amb d - localDay amb (now amb))"
    by (simp add: getDaysLeft_def differenceInCalendarDays_def parseDate_def localDay_def
          Day_def LocalTime_def)
  have o: "getDaysOverdue amb (Some d) = max 0 (localDay amb (now amb) - localDay amb d)"
    by (simp add: getDaysOverdue_def differenceInCalendarDays_def parseDate_def localDay_def
          Day_def LocalTime_def)
  show ?thesis
    using calculateDaysLeft_ceiling [of amb d] calculateDaysLeft_same_offset [of amb d] g o
    by blast
qed

text \<open>
  The example of the spec in New York: due on 2024-01-10, now 2024-01-08, two days
  left; and the same due date seen two days after it, two days overdue.
\<close>

theorem days_left_value_witness:
  "offsetAtLocal (inNewYork nyJan08) (localDay (inNewYork nyJan08) nyJan10 * msPerDay)
     = offsetAtLocal (inNewYork nyJan08)
         (localDay (inNewYork nyJan08) (now (inNewYork nyJan08)) * msPerDay)
   \<and> localDay (inNewYork nyJan08) nyJan10 - localDay (inNewYork nyJan08) nyJan08 = 2
   \<and> calculateDaysLeft (inNewYork nyJan08) (Some nyJan10) = Some 2
   \<and> getDaysLeft (inNewYork nyJan08) (Some nyJan10) = 2
   \<and> calculateDaysLeft (inNewYork nyJan10) (Some nyJan08) = Some (- 2)
   \<and> getDaysLeft (inNewYork nyJan10) (Some nyJan08) = 0
   \<and> getDaysOverdue (inNewYork nyJan10) (Some nyJan08) = 2"
proof -
  have d1: "localDay (inNewYork nyJan08) nyJan10 = 19732"
    and d2: "localDay (inNewYork nyJan08) nyJan08 = 19730"
    and d3: "localDay (inNewYork nyJan10) nyJan10 = 19732"
    and d4: "localDay (inNewYork nyJan10) nyJan08 = 19730"
    by (simp_all add: localDay_def inNewYork_def newYorkAtUTC_def nyJan08_def nyJan10_def
          msPerDay_def msPerHour_def)
  have n: "now (inNewYork t) = t" for t
    by (simp add: inNewYork_def)
  have h1: "offsetAtLocal (inNewYork nyJan08) (localDay (inNewYork nyJan08) nyJan10 * msPerDay)
     = offsetAtLocal (inNewYork nyJan08)
         (localDay (inNewYork nyJan08) (now (inNewYork nyJan08)) * msPerDay)"
    unfolding n d1 d2 by (simp add: inNewYork_def newYorkAtLocal_def msPerDay_def)
  have h2: "offsetAtLocal (inNewYork nyJan10) (localDay (inNewYork nyJan10) nyJan08 * msPerDay)
     = offsetAtLocal (inNewYork nyJan10)
         (localDay (inNewYork nyJan10) (now (inNewYork nyJan10)) * msPerDay)"
    unfolding n d3 d4 by (simp add: inNewYork_def newYorkAtLocal_def msPerDay_def)
  note t1 = days_left_value [of "inNewYork nyJan08" nyJan10]
  note t2 = days_left_value [of "inNewYork nyJan10" nyJan08]
  have c1: "calculateDaysLeft (inNewYork nyJan08) (Some nyJan10) = Some 2"
    using t1 [THEN conjunct2, THEN conjunct1, rule_format, OF h1] by (simp add: n d1 d2)
  have c2: "calculateDaysLeft (inNewYork nyJan10) (Some nyJan08) = Some (- 2)"
    using t2 [THEN conjunct2, THEN conjunct1, rule_format, OF h2] by (simp add: n d3 d4)
  have g1: "getDaysLeft (inNewYork nyJan08) (Some nyJan10) = 2"
    using t1 [THEN conjunct2, THEN conjunct2, THEN conjunct1] by (simp add: n d1 d2)
  have g2: "getDaysLeft (inNewYork nyJan10) (Some nyJan08) = 0"
    using t2 [THEN conjunct2, THEN conjunct2, THEN conjunct1] by (simp add: n d3 d4)
  have o2: "getDaysOverdue (inNewYork nyJan10) (Some nyJan08) = 2"
    using t2 [THEN conjunct2, THEN conjunct2, THEN conjunct2] by (simp add: n d3 d4)
  have dd: "localDay (inNewYork nyJan08) nyJan10 - localDay (inNewYork nyJan08) nyJan08 = 2"
    by (simp add: d1 d2)
  show ?thesis
    using h1 dd c1 g1 c2 g2 o2 by simp
qed

text \<open>
  Where the offset changes between the two midnights, the midnights are not whole days
  apart and the ceiling does not count calendar days: over the night in which the
  clocks go back, two calendar days ahead are 49 hours and count as 3; over the night in
  which they go forward, two calendar days back are 47 hours and count as \<open>-1\<close>.
\<close>

lemma days_left_across_offset_change:
  "localMidnight (inNewYork nyNov02) nyNov04 - localMidnight (inNewYork nyNov02) nyNov02
     = 49 * msPerHour
   \<and> localDay (inNewYork nyNov02) nyNov04 - localDay (inNewYork nyNov02) nyNov02 = 2
   \<and> calculateDaysLeft (inNewYork nyNov02) (Some nyNov04) = Some 3
   \<and> getDaysLeft (inNewYork nyNov02) (Some nyNov04) = 2
   \<and> localMidnight (inNewYork nyMar11) nyMar09 - localMidnight (inNewYork nyMar11) nyMar11
       = - (47 * msPerHour)
   \<and> localDay (inNewYork nyMar11) nyMar09 - localDay (inNewYork nyMar11) nyMar11 = - 2
   \<and> calculateDaysLeft (inNewYork nyMar11) (Some nyMar09) = Some (- 1)
   \<and> getDaysOverdue (inNewYork nyMar11) (Some nyMar09) = 2"
proof -
  have c1: "\<lceil>(49 :: rat) / 24\<rceil> = 3"
    by (rule ceiling_unique) simp_all
  have c2: "\<lceil>- ((47 :: rat) / 24)\<rceil> = - 1"
    by (rule ceiling_unique) simp_all
  show ?thesis
    by (simp add: calculateDaysLeft_def getDaysLeft_def getDaysOverdue_def
          differenceInCalendarDays_def parseDate_def localMidnight_def localDay_def
          setHoursZero_def LocalTime_def UTC_def Day_def MakeDate_def MakeTime_def
          inNewYork_def newYorkAtUTC_def newYorkAtLocal_def nyNov02_def nyNov04_def
          nyMar11_def nyMar09_def msPerDay_def msPerHour_def Let_def c1 c2)
qed

text \<open>
  C8, as the spec states it, fails: the greeting has no parameter at all and
  \<^verbatim>\<open>calculateDaysLeft\<close> has the due date only, yet two runs on the same due date give
  different results when the clock they read has moved.
\<close>

theorem ambient_clock_counterexample:
  "greeting onJan08 = ''Good Morning'' \<and> greeting onJan10 = ''Good Evening''
   \<and> calculateDaysLeft onJan08 (Some jan10) = Some 2
   \<and> calculateDaysLeft onJan10 (Some jan10) = Some 0"
  by (simp add: greeting_def getHours_def calculateDaysLeft_def setHoursZero_def
        LocalTime_def UTC_def Day_def MakeDate_def MakeTime_def onJan08_def onJan10_def
        atUTC_def utcZone_def jan08_def jan10_def msPerDay_def msPerHour_def Let_def)

text \<open>
  C8, amended. The greeting and the days left are functions of their parameters and of
  the clock and time zone that they read themselves: the greeting is the same for two
  readings with the same local hour, and the days left for a due date are the same for
  two readings in the same zone on the same local calendar day.
\<close>

theorem derived_state_depends_on_clock:
  "(getHours a (now a) = getHours b (now b) \<longrightarrow> greeting a = greeting b)
   \<and> (offsetAtUTC a = offsetAtUTC b \<and> offsetAtLocal a = offsetAtLocal b
        \<and> localDay a (now a) = localDay b (now b)
      \<longrightarrow> calculateDaysLeft a dueDate = calculateDaysLeft b dueDate)"
proof -
  have g: "getHours a (now a) = getHours b (now b) \<Longrightarrow> greeting a = greeting b"
    by (simp add: greeting_def Let_def)
  have d: "calculateDaysLeft a dueDate = calculateDaysLeft b dueDate"
    if z: "offsetAtUTC a = offsetAtUTC b" "offsetAtLocal a = offsetAtLocal b"
      and n: "localDay a (now a) = localDay b (now b)"
  proof -
    have same: "localDay a t = localDay b t" for t
      using z by (simp add: localDay_def)
    have "localMidnight a (now a) = localMidnight b (now b)"
      using z n by (simp add: localMidnight_def)
    moreover have "localMidnight a t = localMidnight b t" for t
      using z same by (simp add: localMidnight_def)
    ultimately show ?thesis
      by (cases dueDate) (simp_all add: calculateDaysLeft_def Let_def setHoursZero_localMidnight)
  qed
  show ?thesis
    using g d by blast
qed

theorem derived_state_depends_on_clock_witness:
  "getHours onJan10 (now onJan10)
     = getHours (onJan10\<lparr> now := jan10 + 19 * 3600000 - 1 \<rparr>)
         (now (onJan10\<lparr> now := jan10 + 19 * 3600000 - 1 \<rparr>))
   \<and> greeting onJan10 = greeting (onJan10\<lparr> now := jan10 + 19 * 3600000 - 1 \<rparr>)
   \<and> offsetAtUTC onJan10 = offsetAtUTC (onJan10\<lparr> now := jan10 \<rparr>)
   \<and> offsetAtLocal onJan10 = offsetAtLocal (onJan10\<lparr> now := jan10 \<rparr>)
   \<and> localDay onJan10 (now onJan10)
       = localDay (onJan10\<lparr> now := jan10 \<rparr>) (now (onJan10\<lparr> now := jan10 \<rparr>))
   \<and> calculateDaysLeft onJan10 (Some jan08)
       = calculateDaysLeft (onJan10\<lparr> now := jan10 \<rparr>) (Some jan08)"
proof -
  have h1: "getHours onJan10 (now onJan10)
     = getHours (onJan10\<lparr> now := jan10 + 19 * 3600000 - 1 \<rparr>)
         (now (onJan10\<lparr> now := jan10 + 19 * 3600000 - 1 \<rparr>))"
    by (simp add: getHours_def LocalTime_def onJan10_def atUTC_def utcZone_def jan10_def
          msPerHour_def)
  have h2: "offsetAtUTC onJan10 = offsetAtUTC (onJan10\<lparr> now := jan10 \<rparr>)"
    by simp
  have h3: "offsetAtLocal onJan10 = offsetAtLocal (onJan10\<lparr> now := jan10 \<rparr>)"
    by simp
  have h4: "localDay onJan10 (now onJan10)
       = localDay (onJan10\<lparr> now := jan10 \<rparr>) (now (onJan10\<lparr> now := jan10 \<rparr>))"
    by (simp add: localDay_def onJan10_def atUTC_def utcZone_def jan10_def msPerDay_def)
  note t1 = derived_state_depends_on_clock
              [of onJan10 "onJan10\<lparr> now := jan10 + 19 * 3600000 - 1 \<rparr>"]
  note t2 = derived_state_depends_on_clock [of onJan10 "onJan10\<lparr> now := jan10 \<rparr>" "Some jan08"]
  have r1: "greeting onJan10 = greeting (onJan10\<lparr> now := jan10 + 19 * 3600000 - 1 \<rparr>)"
    using t1 [THEN conjunct1, rule_format, OF h1] .
  have r2: "calculateDaysLeft onJan10 (Some jan08)
       = calculateDaysLeft (onJan10\<lparr> now := jan10 \<rparr>) (Some jan08)"
    using t2 [THEN conjunct2, rule_format, OF conjI [OF h2 conjI [OF h3 h4]]] .
  from h1 r1 h2 h3 h4 r2 show ?thesis
    by (intro conjI)
qed

subsection \<open>Properties of the availability badges\<close>

lemma includes_lower:
  "String_includes (toLowerCase s) n \<longleftrightarrow> containsIgnoringCase s n"
proof
  assume "String_includes (toLowerCase s) n"
  then obtain ps ss where "map toLowerChar s = ps @ n @ ss"
    unfolding String_includes_def toLowerCase_def sublist_def by blast
  then obtain us vs where s: "s = us @ vs" and vs: "map toLowerChar vs = n @ ss"
    using map_eq_append_conv [of toLowerChar s ps "n @ ss"] by metis
  from vs obtain w ts where v: "vs = w @ ts" and w: "map toLowerChar w = n"
    using map_eq_append_conv [of toLowerChar vs n ss] by metis
  have "sublist w s"
    unfolding sublist_def using s v by blast
  then show "containsIgnoringCase s n"
    unfolding containsIgnoringCase_def toLowerCase_def using w by blast
next
  assume "containsIgnoringCase s n"
  then obtain w ps ss where s: "s = ps @ w @ ss" and w: "map toLowerChar w = n"
    unfolding containsIgnoringCase_def toLowerCase_def sublist_def by blast
  have "map toLowerChar s = map toLowerChar ps @ n @ map toLowerChar ss"
    using s w by simp
  then show "String_includes (toLowerCase s) n"
    unfolding String_includes_def toLowerCase_def sublist_def by blast
qed

lemma orDefault_nonempty: "s \<noteq> [] \<Longrightarrow> orDefault (Some s) d = s"
  by (simp add: orDefault_def)

lemma containsIgnoringCase_nonempty: "containsIgnoringCase s n \<Longrightarrow> n \<noteq> [] \<Longrightarrow> s \<noteq> []"
  by (auto simp: containsIgnoringCase_def toLowerCase_def)

text \<open>
  C2, as the spec states it, fails on the detail view: a missing status and an empty one
  are shown as "Available", not as on hold, and a status that matches nothing is shown
  under the label "On Hold", not under its own text. It also fails where both words
  occur: a status that contains "checked" and "available" is classified as available.
\<close>

theorem availability_default_counterexample:
  "label (availabilityStyles None) = ''Available''
   \<and> label (availabilityStyles (Some [])) = ''Available''
   \<and> label (availabilityStyles (Some ''Reserved'')) = ''On Hold''
   \<and> containsIgnoringCase ''Not available: checked out'' ''checked''
   \<and> badgeClassByAvailability (Some ''Not available: checked out'') = ''bg-emerald-100 text-success''"
proof -
  have a: "label (availabilityStyles None) = ''Available''"
    unfolding availabilityStyles_def String_includes_def by code_simp
  have b: "label (availabilityStyles (Some [])) = ''Available''"
    unfolding availabilityStyles_def String_includes_def by code_simp
  have c: "label (availabilityStyles (Some ''Reserved'')) = ''On Hold''"
    unfolding availabilityStyles_def String_includes_def by code_simp
  have "String_includes (toLowerCase ''Not available: checked out'') ''checked''"
    unfolding String_includes_def by code_simp
  then have d: "containsIgnoringCase ''Not available: checked out'' ''checked''"
    by (simp only: includes_lower)
  have e: "badgeClassByAvailability (Some ''Not available: checked out'') = ''bg-emerald-100 text-success''"
    unfolding badgeClassByAvailability_def String_includes_def by code_simp
  show ?thesis
    using a b c d e by blast
qed

text \<open>
  C2, amended. Both classifiers match substrings without regard to case, in this order:
  a status that contains "available" is available; otherwise one that contains
  "checked" is checked out; any other non-empty status is on hold. On the browsing
  page a missing or empty status is on hold and the badge shows the status text as it
  came; on the detail view a missing or empty status counts as "Available" and the
  badge shows the label of the class.
\<close>

theorem availability_classification:
  "(containsIgnoringCase s ''available'' \<longrightarrow>
      badgeClassByAvailability (Some s) = ''bg-emerald-100 text-success''
      \<and> label (availabilityStyles (Some s)) = ''Available'')
   \<and> (\<not> containsIgnoringCase s ''available'' \<and> containsIgnoringCase s ''checked'' \<longrightarrow>
      badgeClassByAvailability (Some s) = ''bg-amber-100 text-warning''
      \<and> label (availabilityStyles (Some s)) = ''Checked Out'')
   \<and> (s \<noteq> [] \<and> \<not> containsIgnoringCase s ''available'' \<and> \<not> containsIgnoringCase s ''checked'' \<longrightarrow>
      badgeClassByAvailability (Some s) = ''bg-primary-100 text-primary''
      \<and> label (availabilityStyles (Some s)) = ''On Hold'')
   \<and> badgeClassByAvailability None = ''bg-primary-100 text-primary''
   \<and> badgeClassByAvailability (Some []) = ''bg-primary-100 text-primary''
   \<and> label (availabilityStyles None) = ''Available''
   \<and> label (availabilityStyles (Some [])) = ''Available''
   \<and> snd (bookCardBadge availability) = availability"
proof -
  have ne: "containsIgnoringCase s n \<Longrightarrow> n \<noteq> [] \<Longrightarrow> orDefault (Some s) d = s" for n d
    using containsIgnoringCase_nonempty orDefault_nonempty by blast
  have p1: "containsIgnoringCase s ''available'' \<Longrightarrow>
      badgeClassByAvailability (Some s) = ''bg-emerald-100 text-success''
      \<and> label (availabilityStyles (Some s)) = ''Available''"
    by (simp add: badgeClassByAvailability_def availabilityStyles_def Let_def ne includes_lower)
  have p2: "\<not> containsIgnoringCase s ''available'' \<Longrightarrow> containsIgnoringCase s ''checked'' \<Longrightarrow>
      badgeClassByAvailability (Some s) = ''bg-amber-100 text-warning''
      \<and> label (availabilityStyles (Some s)) = ''Checked Out''"
    by (simp add: badgeClassByAvailability_def availabilityStyles_def Let_def ne includes_lower)
  have p3: "s \<noteq> [] \<Longrightarrow> \<not> containsIgnoringCase s ''available'' \<Longrightarrow>
      \<not> containsIgnoringCase s ''checked'' \<Longrightarrow>
      badgeClassByAvailability (Some s) = ''bg-primary-100 text-primary''
      \<and> label (availabilityStyles (Some s)) = ''On Hold''"
    by (simp add: badgeClassByAvailability_def availabilityStyles_def Let_def
          orDefault_nonempty includes_lower)
  have e1: "badgeClassByAvailability None = ''bg-primary-100 text-primary''"
    unfolding badgeClassByAvailability_def String_includes_def by code_simp
  have e2: "badgeClassByAvailability (Some []) = ''bg-primary-100 text-primary''"
    unfolding badgeClassByAvailability_def String_includes_def by code_simp
  have e3: "label (availabilityStyles None) = ''Available''"
    unfolding availabilityStyles_def String_includes_def by code_simp
  have e4: "label (availabilityStyles (Some [])) = ''Available''"
    unfolding availabilityStyles_def String_includes_def by code_simp
  have e5: "snd (bookCardBadge availability) = availability"
    by (simp add: bookCardBadge_def)
  show ?thesis
    using p1 p2 p3 e1 e2 e3 e4 e5 by blast
qed

theorem availability_classification_witness:
  "containsIgnoringCase ''AVAILABLE now'' ''available''
   \<and> badgeClassByAvailability (Some ''AVAILABLE now'') = ''bg-emerald-100 text-success''
   \<and> label (availabilityStyles (Some ''AVAILABLE now'')) = ''Available''
   \<and> \<not> containsIgnoringCase ''Checked Out'' ''available''
   \<and> containsIgnoringCase ''Checked Out'' ''checked''
   \<and> badgeClassByAvailability (Some ''Checked Out'') = ''bg-amber-100 text-warning''
   \<and> label (availabilityStyles (Some ''Checked Out'')) = ''Checked Out''
   \<and> ''Reserved'' \<noteq> []
   \<and> \<not> containsIgnoringCase ''Reserved'' ''available''
   \<and> \<not> containsIgnoringCase ''Reserved'' ''checked''
   \<and> badgeClassByAvailability (Some ''Reserved'') = ''bg-primary-100 text-primary''
   \<and> label (availabilityStyles (Some ''Reserved'')) = ''On Hold''
   \<and> snd (bookCardBadge (Some ''Reserved'')) = Some ''Reserved''"
proof -
  have "String_includes (toLowerCase ''AVAILABLE now'') ''available''"
    unfolding String_includes_def by code_simp
  then have a: "containsIgnoringCase ''AVAILABLE now'' ''available''"
    using includes_lower by blast
  have "\<not> String_includes (toLowerCase ''Checked Out'') ''available''"
    unfolding String_includes_def by code_simp
  then have b1: "\<not> containsIgnoringCase ''Checked Out'' ''available''"
    using includes_lower by blast
  have "String_includes (toLowerCase ''Checked Out'') ''checked''"
    unfolding String_includes_def by code_simp
  then have b2: "containsIgnoringCase ''Checked Out'' ''checked''"
    using includes_lower by blast
  have "\<not> String_includes (toLowerCase ''Reserved'') ''available''"
    unfolding String_includes_def by code_simp
  then have c1: "\<not> containsIgnoringCase ''Reserved'' ''available''"
    using includes_lower by blast
  have "\<not> String_includes (toLowerCase ''Reserved'') ''checked''"
    unfolding String_includes_def by code_simp
  then have c2: "\<not> containsIgnoringCase ''Reserved'' ''checked''"
    using includes_lower by blast
  have c0: "''Reserved'' \<noteq> []"
    by simp
  note t = availability_classification [of _ "Some ''Reserved''"]
  note r1 = t [THEN conjunct1, rule_format, OF a]
  note r2 = t [THEN conjunct2, THEN conjunct1, rule_format, OF conjI [OF b1 b2]]
  note r3 = t [THEN conjunct2, THEN conjunct2, THEN conjunct1, rule_format,
               OF conjI [OF c0 conjI [OF c1 c2]]]
  have r4: "snd (bookCardBadge (Some ''Reserved'')) = Some ''Reserved''"
    by (simp add: bookCardBadge_def)
  show ?thesis
    using a r1 b1 b2 r2 c1 c2 r3 r4 by simp
qed

end
